theory Spec2Isabelle
  imports Complex_Main "HOL-Library.Sublist"
begin

section \<open>Python text primitives\<close>

text \<open>
  A Python \<open>str\<close> is modelled as a \<open>string\<close> whose characters are code points below 256
  (ASCII and Latin-1). On this range \<open>str.lower\<close> maps one character to one character,
  so lengths are preserved, as they are in Python.
\<close>

definition code_point :: "char \<Rightarrow> nat" where
  "code_point c = of_char c"

text \<open>\<open>str.isspace\<close> on one character: TAB..CR, FS..US, space, NEL and NBSP.\<close>

definition isspace :: "char \<Rightarrow> bool" where
  "isspace c =
     (let n = code_point c
      in (9 \<le> n \<and> n \<le> 13) \<or> (28 \<le> n \<and> n \<le> 32) \<or> n = 133 \<or> n = 160)"

text \<open>\<open>c.isupper()\<close> on one character: A..Z and the Latin-1 capitals.\<close>

definition isupper_char :: "char \<Rightarrow> bool" where
  "isupper_char c =
     (let n = code_point c
      in (65 \<le> n \<and> n \<le> 90) \<or> (192 \<le> n \<and> n \<le> 214) \<or> (216 \<le> n \<and> n \<le> 222))"

text \<open>The characters with the Unicode property Lowercase, below 256.\<close>

definition islower_char :: "char \<Rightarrow> bool" where
  "islower_char c =
     (let n = code_point c
      in (97 \<le> n \<and> n \<le> 122) \<or> n = 170 \<or> n = 181 \<or> n = 186
         \<or> (223 \<le> n \<and> n \<le> 246) \<or> (248 \<le> n \<and> n \<le> 255))"

definition lower_char :: "char \<Rightarrow> char" where
  "lower_char c = (if isupper_char c then char_of (code_point c + 32) else c)"

text \<open>\<open>s.lower()\<close>\<close>

definition lower :: "string \<Rightarrow> string" where
  "lower s = map lower_char s"

text \<open>
  \<open>s.isupper()\<close>: no lowercase character, and at least one uppercase character.
\<close>

definition isupper :: "string \<Rightarrow> bool" where
  "isupper s = (list_ex isupper_char s \<and> \<not> list_ex islower_char s)"

text \<open>\<open>s.strip()\<close>\<close>

definition strip :: "string \<Rightarrow> string" where
  "strip s = rev (dropWhile isspace (rev (dropWhile isspace s)))"

text \<open>
  \<open>s.split()\<close> with no argument: the maximal runs of characters that are not whitespace.
  The helper carries the word being read (\<open>cur\<close>).
\<close>

fun split_aux :: "string \<Rightarrow> string \<Rightarrow> string list" where
  "split_aux cur [] = (if cur = [] then [] else [cur])"
| "split_aux cur (c # cs) =
     (if isspace c then (if cur = [] then split_aux [] cs else cur # split_aux [] cs)
      else split_aux (cur @ [c]) cs)"

definition split :: "string \<Rightarrow> string list" where
  "split s = split_aux [] s"

text \<open>\<open>s.startswith(p)\<close> and \<open>s.endswith(p)\<close>\<close>

fun startswith :: "string \<Rightarrow> string \<Rightarrow> bool" where
  "startswith s [] = True"
| "startswith [] (p # ps) = False"
| "startswith (c # cs) (p # ps) = (c = p \<and> startswith cs ps)"

definition endswith :: "string \<Rightarrow> string \<Rightarrow> bool" where
  "endswith s p = startswith (rev s) (rev p)"

text \<open>\<open>sub in s\<close> on strings: \<open>sub\<close> occurs in \<open>s\<close> as a contiguous run.\<close>

fun str_in :: "string \<Rightarrow> string \<Rightarrow> bool" where
  "str_in sub [] = (sub = [])"
| "str_in sub (c # cs) = (startswith (c # cs) sub \<or> str_in sub cs)"

text \<open>\<open>any(c in s for c in chars)\<close>\<close>

definition any_char_in :: "string \<Rightarrow> string \<Rightarrow> bool" where
  "any_char_in chars s = list_ex (\<lambda>c. str_in [c] s) chars"

text \<open>
  \<open>s.replace(old, new)\<close> and \<open>s.replace(old, new, 1)\<close>: occurrences are found from the
  left and do not overlap. Every call in the program has a non-empty \<open>old\<close>; for an
  empty \<open>old\<close> Python inserts \<open>new\<close> around every character.
\<close>

fun replace_ne :: "string \<Rightarrow> string \<Rightarrow> string \<Rightarrow> string" where
  "replace_ne old new [] = []"
| "replace_ne old new (c # cs) =
     (if startswith (c # cs) old
      then new @ replace_ne old new (drop (length old - 1) cs)
      else c # replace_ne old new cs)"

definition replace :: "string \<Rightarrow> string \<Rightarrow> string \<Rightarrow> string" where
  "replace s old new =
     (if old = [] then new @ concat (map (\<lambda>c. c # new) s) else replace_ne old new s)"

fun replace1_ne :: "string \<Rightarrow> string \<Rightarrow> string \<Rightarrow> string" where
  "replace1_ne old new [] = []"
| "replace1_ne old new (c # cs) =
     (if startswith (c # cs) old
      then new @ drop (length old - 1) cs
      else c # replace1_ne old new cs)"

definition replace1 :: "string \<Rightarrow> string \<Rightarrow> string \<Rightarrow> string" where
  "replace1 s old new = (if old = [] then new @ s else replace1_ne old new s)"

text \<open>\<open>len(set(xs) & set(ys))\<close> and \<open>len(set(xs))\<close>\<close>

definition len_set_inter :: "'a list \<Rightarrow> 'a list \<Rightarrow> nat" where
  "len_set_inter xs ys = length (remdups (filter (\<lambda>x. List.member ys x) xs))"

definition len_set :: "'a list \<Rightarrow> nat" where
  "len_set xs = length (remdups xs)"

text \<open>
  \<open>sum(1 for w in s.split() if w and w[0].isupper()) / max(1, len(s.split()))\<close>,
  the fraction of words that start with a capital. Python divides two small integers in
  floating point and compares the quotient with a decimal literal; the quotient is
  correctly rounded and the literal is the rounding of the decimal, so the comparison
  agrees with the one on exact fractions, which is what the model computes.
\<close>

definition starts_upper :: "string \<Rightarrow> bool" where
  "starts_upper w = (case w of [] \<Rightarrow> False | c # _ \<Rightarrow> isupper_char c)"

definition capitalized_ratio :: "string list \<Rightarrow> rat" where
  "capitalized_ratio ws =
     of_nat (length (filter starts_upper ws)) / of_nat (max 1 (length ws))"

text \<open>Truthiness of an \<open>Optional[str]\<close>: neither \<open>None\<close> nor the empty string.\<close>

fun truthy :: "string option \<Rightarrow> bool" where
  "truthy None = False"
| "truthy (Some s) = (s \<noteq> [])"

fun str_or_empty :: "string option \<Rightarrow> string" where
  "str_or_empty None = []"
| "str_or_empty (Some s) = s"

section \<open>Python floats\<close>

text \<open>
  A Python \<open>float\<close> is an IEEE 754 double: a finite value, which is a rational, an
  infinity with its sign (\<open>True\<close> for the positive one), or a NaN. The two zeros are not
  told apart; no operation below divides by a float. Every operation computes the exact
  result and rounds it to the nearest double, ties to the even significand
  (\<open>round_double\<close>): significands have 53 bits, the least exponent of the last bit is
  \<open>-1074\<close>, and a rounded magnitude of \<open>2 ^ 1024\<close> or more is an infinity. A decimal
  literal such as \<open>1.2\<close> is \<open>round_double (12 / 10)\<close>.
\<close>

datatype double = Finite rat | Infinite bool | NaN

definition pow2 :: "int \<Rightarrow> rat" where
  "pow2 k = (if 0 \<le> k then of_int (2 ^ nat k) else 1 / of_int (2 ^ nat (- k)))"

text \<open>The number of bits of a positive integer.\<close>

function bit_length :: "int \<Rightarrow> int" where
  "bit_length n = (if n \<le> 0 then 0 else bit_length (n div 2) + 1)"
  by pat_completeness auto

termination
  by (relation "measure nat") auto

declare bit_length.simps [simp del]

text \<open>\<open>floor_log2 p q\<close> is the integer \<open>k\<close> with \<open>2 ^ k \<le> p / q < 2 ^ (k + 1)\<close>, for positive \<open>p\<close> and \<open>q\<close>.\<close>

definition floor_log2 :: "int \<Rightarrow> int \<Rightarrow> int" where
  "floor_log2 p q =
     (let k = bit_length p - bit_length q
      in if (if 0 \<le> k then q * 2 ^ nat k \<le> p else q \<le> p * 2 ^ nat (- k)) then k else k - 1)"

text \<open>The integer nearest to \<open>n / d\<close>, the even one of two at the same distance.\<close>

definition round_div :: "int \<Rightarrow> int \<Rightarrow> int" where
  "round_div n d =
     (let f = n div d; r = n mod d
      in if 2 * r < d then f
         else if d < 2 * r then f + 1
         else if even f then f else f + 1)"

definition round_double :: "rat \<Rightarrow> double" where
  "round_double x =
     (if x = 0 then Finite 0
      else
        let p = \<bar>fst (quotient_of x)\<bar>; q = snd (quotient_of x);
            e = max (floor_log2 p q - 52) (- 1074);
            m = (if e < 0 then round_div (p * 2 ^ nat (- e)) q else round_div p (q * 2 ^ nat e));
            r = of_int m * pow2 e
        in if 1024 < bit_length m + e then Infinite (0 < x)
           else Finite (if 0 < x then r else - r))"

text \<open>\<open>x + y\<close>, \<open>x * y\<close>, \<open>x / n\<close> for a positive integer \<open>n\<close> (a length), \<open>x < y\<close> and \<open>x <= y\<close>.\<close>

fun float_add :: "double \<Rightarrow> double \<Rightarrow> double" where
  "float_add (Finite a) (Finite b) = round_double (a + b)"
| "float_add (Finite a) (Infinite s) = Infinite s"
| "float_add (Infinite s) (Finite b) = Infinite s"
| "float_add (Infinite s) (Infinite s') = (if s = s' then Infinite s else NaN)"
| "float_add NaN y = NaN"
| "float_add x NaN = NaN"

fun float_mul :: "double \<Rightarrow> double \<Rightarrow> double" where
  "float_mul (Finite a) (Finite b) = round_double (a * b)"
| "float_mul (Finite a) (Infinite s) = (if a = 0 then NaN else Infinite (s = (0 < a)))"
| "float_mul (Infinite s) (Finite b) = (if b = 0 then NaN else Infinite (s = (0 < b)))"
| "float_mul (Infinite s) (Infinite s') = Infinite (s = s')"
| "float_mul NaN y = NaN"
| "float_mul x NaN = NaN"

fun float_div_len :: "double \<Rightarrow> nat \<Rightarrow> double" where
  "float_div_len (Finite a) n = round_double (a / of_nat n)"
| "float_div_len (Infinite s) n = Infinite s"
| "float_div_len NaN n = NaN"

fun float_less :: "double \<Rightarrow> double \<Rightarrow> bool" where
  "float_less (Finite a) (Finite b) = (a < b)"
| "float_less (Finite a) (Infinite s) = s"
| "float_less (Infinite s) (Finite b) = (\<not> s)"
| "float_less (Infinite s) (Infinite s') = (\<not> s \<and> s')"
| "float_less NaN y = False"
| "float_less x NaN = False"

fun float_le :: "double \<Rightarrow> double \<Rightarrow> bool" where
  "float_le (Finite a) (Finite b) = (a \<le> b)"
| "float_le (Finite a) (Infinite s) = s"
| "float_le (Infinite s) (Finite b) = (\<not> s)"
| "float_le (Infinite s) (Infinite s') = (\<not> s \<or> s')"
| "float_le NaN y = False"
| "float_le x NaN = False"

text \<open>
  The built-in \<open>sum\<close> on a list of floats. Its rounding depends on the interpreter
  (from CPython 3.12 on it compensates the rounding errors of the partial sums), so the
  functions that call it take it as the parameter \<open>float_sum\<close>. \<open>plain_sum\<close> adds from
  the left, starting from \<open>0\<close>, as the interpreters before 3.12 do; the two agree
  whenever no partial sum is rounded.
\<close>

definition plain_sum :: "double list \<Rightarrow> double" where
  "plain_sum xs = fold (\<lambda>x acc. float_add acc x) xs (Finite 0)"

section \<open>Text blocks\<close>

text \<open>
  \<open>TextBlock\<close> of \<open>pdf_editor.py\<close>. Font sizes and coordinates are floats.
\<close>

record TextBlock =
  text_str :: string
  bbox :: "double \<times> double \<times> double \<times> double"
  page_num :: nat
  font_size :: double
  font_name :: "string option"
  is_heading :: bool

text \<open>\<open>TextBlock._is_heading\<close>, on the text of the block.\<close>

definition TextBlock_is_heading :: "string \<Rightarrow> bool" where
  "TextBlock_is_heading t =
     (let text = strip t in
      if text = [] then False
      else
        let words = split text; word_count = length words in
        if word_count \<le> 7 \<and> capitalized_ratio words > 1 / 2 then True
        else if endswith text '':'' \<and> word_count < 10 then True
        else if isupper text \<and> word_count < 5 then True
        else if word_count < 12
                \<and> \<not> any_char_in [CHR '','', CHR '';'', CHR '':'', CHR ''('', CHR '')'',
                                  CHR 0x22, CHR 0x27] text
        then True
        else False)"

text \<open>\<open>TextBlock.__init__\<close>\<close>

definition TextBlock_init ::
  "string \<Rightarrow> double \<times> double \<times> double \<times> double \<Rightarrow> nat \<Rightarrow> double \<Rightarrow> string option \<Rightarrow>
   TextBlock" where
  "TextBlock_init t bb pn fs fn =
     \<lparr>text_str = t, bbox = bb, page_num = pn, font_size = fs, font_name = fn,
      is_heading = TextBlock_is_heading t\<rparr>"

section \<open>The text-block matcher\<close>

text \<open>
  \<open>PDFEditor._fuzzy_match\<close>. The two overlap ratios are quotients of small integers,
  compared with decimal literals: exact fractions, as for \<open>capitalized_ratio\<close>.
\<close>

definition fuzzy_match :: "string \<Rightarrow> string \<Rightarrow> string option \<Rightarrow> bool" where
  "fuzzy_match target text context =
     (if str_in (lower target) (lower text) then True
      else
        let target_words = split (lower target);
            text_words = split (lower text);
            context_words = (if truthy context then split (lower (str_or_empty context)) else []);
            word_overlap =
              (if target_words \<noteq> []
               then of_nat (len_set_inter target_words text_words) / of_nat (len_set target_words)
               else (0::rat));
            context_match =
              (if context_words \<noteq> []
               then of_nat (len_set_inter context_words text_words) / of_nat (len_set context_words)
               else (0::rat));
            is_heading_like =
              (length (strip text) < 100
               \<and> (endswith (strip text) '':'' \<or> \<not> any_char_in '',.;'' text)
               \<and> capitalized_ratio (split text) > 1 / 2)
        in if is_heading_like then word_overlap \<ge> 3 / 10 \<or> context_match \<ge> 3 / 10
           else word_overlap \<ge> 1 / 2 \<and> (context_match \<ge> 2 / 10 \<or> \<not> truthy context))"

text \<open>
  \<open>PDFEditor._find_matching_text_blocks\<close>. The three loops append to the one list
  \<open>matching_blocks\<close>; each loop is a fold over the blocks that carries the list.
  In the third loop \<open>overlap >= len(words) * 0.6\<close> compares an integer with a float
  product. For any word count a text can have, the product is the exact value when
  that value is an integer and lies strictly between the same two integers otherwise,
  so the comparison agrees with the one on exact rationals, which the model computes.
\<close>

definition exact_loop :: "string \<Rightarrow> TextBlock list \<Rightarrow> TextBlock list \<Rightarrow> TextBlock list" where
  "exact_loop target_text_lower text_blocks matching_blocks =
     fold (\<lambda>block mb.
             if target_text_lower = lower (text_str block) then mb @ [block]
             else if str_in target_text_lower (lower (text_str block)) then mb @ [block]
             else mb)
          text_blocks matching_blocks"

definition context_loop ::
  "string \<Rightarrow> string option \<Rightarrow> TextBlock list \<Rightarrow> TextBlock list \<Rightarrow> TextBlock list" where
  "context_loop target_text context text_blocks matching_blocks =
     fold (\<lambda>block mb.
             if fuzzy_match target_text (text_str block) context then mb @ [block] else mb)
          text_blocks matching_blocks"

definition partial_loop :: "string list \<Rightarrow> TextBlock list \<Rightarrow> TextBlock list \<Rightarrow> TextBlock list" where
  "partial_loop words text_blocks matching_blocks =
     fold (\<lambda>block mb.
             let block_words = split (lower (text_str block));
                 overlap = len_set_inter words block_words
             in if (of_nat overlap :: rat) \<ge> of_nat (length words) * (6 / 10) then mb @ [block]
                else mb)
          text_blocks matching_blocks"

definition find_matching_text_blocks ::
  "string \<Rightarrow> TextBlock list \<Rightarrow> string option \<Rightarrow> TextBlock list" where
  "find_matching_text_blocks target_text text_blocks context =
     (let target_text_lower = lower target_text;
          mb1 = exact_loop target_text_lower text_blocks [];
          mb2 = (if mb1 = [] \<and> truthy context
                 then context_loop target_text context text_blocks mb1 else mb1);
          mb3 = (if mb2 = [] then partial_loop (split target_text_lower) text_blocks mb2 else mb2)
      in mb3)"

section \<open>Extraction of text blocks\<close>

text \<open>
  The document collaborator gives, for each page, the dictionary of \<open>page.get_text("dict")\<close>:
  the list under \<open>"blocks"\<close>; a block has its lines under \<open>"lines"\<close> or, for an image
  block, no such key; a line has its spans under \<open>"spans"\<close>.
\<close>

record span =
  s_text :: string
  s_bbox :: "double \<times> double \<times> double \<times> double"
  s_size :: double
  s_font :: string

type_synonym line = "span list"
type_synonym block = "line list option"
type_synonym page_dict = "block list"

text \<open>
  \<open>PDFEditor._calculate_average_font_size\<close>; its argument is the dictionary of a page.
  With no font size the result is the integer \<open>12\<close>.
\<close>

definition calculate_average_font_size :: "(double list \<Rightarrow> double) \<Rightarrow> page_dict \<Rightarrow> double" where
  "calculate_average_font_size float_sum blocks =
     (let font_sizes =
            fold (\<lambda>block fs.
                    case block of
                      None \<Rightarrow> fs
                    | Some lines \<Rightarrow>
                        fold (\<lambda>line fs. fold (\<lambda>span fs. fs @ [s_size span]) line fs) lines fs)
                 blocks []
      in if font_sizes \<noteq> [] then float_div_len (float_sum font_sizes) (length font_sizes)
         else Finite 12)"

text \<open>
  The body of the innermost loop of \<open>PDFEditor.extract_text_blocks\<close>, for one span of
  the page whose dictionary is \<open>blocks\<close>. The state is the pair of \<open>text_blocks\<close> and
  \<open>full_text\<close>. The test is \<open>font_size > avg_font_size * 1.2\<close>.
\<close>

definition extract_span ::
  "(double list \<Rightarrow> double) \<Rightarrow> nat \<Rightarrow> page_dict \<Rightarrow> span \<Rightarrow> TextBlock list \<times> string \<Rightarrow>
   TextBlock list \<times> string" where
  "extract_span float_sum pn blocks sp st =
     (let text = strip (s_text sp) in
      if text \<noteq> [] then
        let font_size = s_size sp;
            text_block = TextBlock_init text (s_bbox sp) pn font_size (Some (s_font sp));
            avg_font_size = calculate_average_font_size float_sum blocks;
            text_block = (if float_less (float_mul avg_font_size (round_double (12 / 10))) font_size
                          then text_block\<lparr>is_heading := True\<rparr> else text_block)
        in (fst st @ [text_block], snd st @ text @ '' '')
      else st)"

definition extract_page ::
  "(double list \<Rightarrow> double) \<Rightarrow> nat \<Rightarrow> page_dict \<Rightarrow> TextBlock list \<times> string \<Rightarrow>
   TextBlock list \<times> string" where
  "extract_page float_sum pn blocks st =
     fold (\<lambda>block st.
             case block of
               None \<Rightarrow> st
             | Some lines \<Rightarrow>
                 fold (\<lambda>line st. fold (extract_span float_sum pn blocks) line st) lines st)
          blocks st"

text \<open>\<open>PDFEditor.extract_text_blocks\<close>, on the pages of the opened document.\<close>

definition extract_text_blocks ::
  "(double list \<Rightarrow> double) \<Rightarrow> page_dict list \<Rightarrow> TextBlock list \<times> string" where
  "extract_text_blocks float_sum doc =
     (let st = fold (\<lambda>(pn, blocks) st. extract_page float_sum pn blocks st) (enumerate 0 doc)
                    ([], [])
      in (fst st, strip (snd st)))"

text \<open>
  The spans of a page in the order in which the loops visit them; the properties of the
  extraction are stated over this list.
\<close>

definition page_spans :: "page_dict \<Rightarrow> span list" where
  "page_spans blocks =
     concat (map (\<lambda>block. case block of None \<Rightarrow> [] | Some lines \<Rightarrow> concat lines) blocks)"

section \<open>The language-model client\<close>

datatype error = JSONDecodeError | TypeError | APIError | FontError | IndexError

text \<open>\<open>LLMClient._simple_humanize\<close>\<close>

definition simple_humanize :: "string \<Rightarrow> string" where
  "simple_humanize text0 =
     (let text = replace text0 ''utilize'' ''use'';
          text = replace text ''demonstrate'' ''show'';
          text = replace text ''furthermore'' ''also'';
          text = replace text ''in addition'' ''plus'';
          text = replace text ''consequently'' ''so''
      in if startswith text ''The system'' then replace1 text ''The system'' ''This system''
         else if startswith text ''This approach''
              then replace1 text ''This approach'' ''Our approach''
         else text)"

text \<open>
  \<open>LLMClient.humanize_text\<close>. The call to the language model is a collaborator:
  \<open>call_openai\<close> takes the user prompt (the system prompt is a constant of the source)
  and returns the reply or fails.
\<close>

record LLMClient =
  openai_available :: bool
  call_openai :: "string \<Rightarrow> error + string"

definition humanize_text :: "LLMClient \<Rightarrow> string \<Rightarrow> string" where
  "humanize_text client text =
     (if openai_available client
      then (case call_openai client (''Humanize this text: '' @ text) of
              Inr response \<Rightarrow> strip response
            | Inl e \<Rightarrow> simple_humanize text)
      else simple_humanize text)"

section \<open>The AI-text heuristic\<close>

definition ai_indicators :: "string list" where
  "ai_indicators =
     [''demonstrates'', ''showcases'', ''furthermore'', ''moreover'',
      ''consequently'', ''thus'', ''therefore'', ''in addition'',
      ''operational efficiency'', ''high levels'', ''significant impact'']"

text \<open>
  \<open>PDFEditor._seems_ai_generated\<close>; the argument is the \<open>Optional[str]\<close> replacement
  text of a request.
\<close>

definition seems_ai_generated :: "string option \<Rightarrow> bool" where
  "seems_ai_generated t =
     (if \<not> truthy t then False
      else
        let text = str_or_empty t;
            text_lower = lower text;
            ai_score = sum_list (map (\<lambda>indicator. (1::nat))
                                     (filter (\<lambda>indicator. str_in indicator text_lower)
                                             ai_indicators))
        in ai_score \<ge> 2 \<or> (length (split text) > 10 \<and> ai_score \<ge> 1))"

section \<open>Heading modification\<close>

text \<open>
  The document collaborator. A document is its number of pages and the operations
  applied to it so far. \<open>page.insert_text\<close> fails on a font it does not know: which
  font names it takes is the parameter \<open>font_ok\<close> (\<open>None\<close>: no font name given).
\<close>

datatype doc_op =
    Draw_rect nat "double \<times> double \<times> double \<times> double"
  | Insert_text nat "double \<times> double" "string option" double "string option"

record document =
  page_count :: nat
  ops :: "doc_op list"

definition draw_rect ::
  "nat \<Rightarrow> double \<times> double \<times> double \<times> double \<Rightarrow> document \<Rightarrow> document" where
  "draw_rect pn rect doc = doc\<lparr>ops := ops doc @ [Draw_rect pn rect]\<rparr>"

definition insert_text ::
  "(string option \<Rightarrow> bool) \<Rightarrow> nat \<Rightarrow> double \<times> double \<Rightarrow> string option \<Rightarrow> double \<Rightarrow>
   string option \<Rightarrow> document \<Rightarrow> error + document" where
  "insert_text font_ok pn point txt fontsize fontname doc =
     (if font_ok fontname
      then Inr (doc\<lparr>ops := ops doc @ [Insert_text pn point txt fontsize fontname]\<rparr>)
      else Inl FontError)"

text \<open>The loop over \<open>fallback_fonts\<close>: the first font that is accepted ends it.\<close>

fun try_fallback_fonts ::
  "(string option \<Rightarrow> bool) \<Rightarrow> nat \<Rightarrow> double \<times> double \<Rightarrow> string option \<Rightarrow> double \<Rightarrow>
   string list \<Rightarrow> document \<Rightarrow> document option" where
  "try_fallback_fonts font_ok pn point txt fontsize [] doc = None"
| "try_fallback_fonts font_ok pn point txt fontsize (fallback_font # fonts) doc =
     (case insert_text font_ok pn point txt fontsize (Some fallback_font) doc of
        Inr doc' \<Rightarrow> Some doc'
      | Inl e \<Rightarrow> try_fallback_fonts font_ok pn point txt fontsize fonts doc)"

text \<open>
  The body of the loop \<open>for block in matching_blocks\<close> of
  \<open>PDFEditor._apply_heading_modification\<close>. The insertion point is
  \<open>(rect.x0, rect.y0 + block.font_size * 0.8)\<close>.
\<close>

definition modify_heading_block ::
  "(string option \<Rightarrow> bool) \<Rightarrow> string option \<Rightarrow> TextBlock \<Rightarrow> document \<Rightarrow> error + document" where
  "modify_heading_block font_ok replacement_text block doc =
     (if \<not> page_num block < page_count doc then Inl IndexError
      else
        let rect = bbox block;
            doc = draw_rect (page_num block) rect doc;
            insertion_point =
              (fst rect,
               float_add (fst (snd rect)) (float_mul (font_size block) (round_double (8 / 10))));
            fname = (if truthy (font_name block) then str_or_empty (font_name block)
                     else ''Helvetica'')
        in case insert_text font_ok (page_num block) insertion_point replacement_text
                  (font_size block) (Some fname) doc of
             Inr doc' \<Rightarrow> Inr doc'
           | Inl font_error \<Rightarrow>
               (case try_fallback_fonts font_ok (page_num block) insertion_point replacement_text
                       (font_size block)
                       [''helv'', ''times'', ''cour'', ''Helvetica'', ''Times-Roman''] doc of
                  Some doc' \<Rightarrow> Inr doc'
                | None \<Rightarrow>
                    insert_text font_ok (page_num block) insertion_point replacement_text
                      (Finite 12) None doc))"

fun modify_heading_blocks ::
  "(string option \<Rightarrow> bool) \<Rightarrow> string option \<Rightarrow> TextBlock list \<Rightarrow> document \<Rightarrow> error + document" where
  "modify_heading_blocks font_ok replacement_text [] doc = Inr doc"
| "modify_heading_blocks font_ok replacement_text (block # blocks) doc =
     (case modify_heading_block font_ok replacement_text block doc of
        Inl e \<Rightarrow> Inl e
      | Inr doc' \<Rightarrow> modify_heading_blocks font_ok replacement_text blocks doc')"

text \<open>
  The condition under which \<open>_apply_heading_modification\<close> takes a block as a potential
  heading in its second search.
\<close>

definition potential_heading :: "TextBlock \<Rightarrow> bool" where
  "potential_heading block =
     (length (split (text_str block)) < 15
      \<and> float_le (Finite 11) (font_size block)
      \<and> \<not> any_char_in [CHR '','', CHR '';'', CHR '':''] (text_str block)
      \<and> capitalized_ratio (split (text_str block)) > 4 / 10)"

text \<open>
  The three searches of \<open>_apply_heading_modification\<close>, from the list of heading blocks
  to the last assignment of \<open>matching_blocks\<close>.
\<close>

definition heading_matching_blocks ::
  "string \<Rightarrow> string option \<Rightarrow> TextBlock list \<Rightarrow> TextBlock list" where
  "heading_matching_blocks target_text context text_blocks =
     (let heading_blocks = filter is_heading text_blocks;
          matching_blocks = find_matching_text_blocks target_text heading_blocks context;
          matching_blocks =
            (if matching_blocks = []
             then let potential_heading_blocks =
                        fold (\<lambda>block p. if potential_heading block then p @ [block] else p)
                             text_blocks []
                  in find_matching_text_blocks target_text potential_heading_blocks context
             else matching_blocks);
          matching_blocks =
            (if matching_blocks = []
             then find_matching_text_blocks target_text text_blocks context
             else matching_blocks)
      in matching_blocks)"

text \<open>
  \<open>PDFEditor._apply_heading_modification\<close>. The request is given by its fields at their
  declared types: \<open>target_text: str\<close>, \<open>replacement_text: Optional[str]\<close> and
  \<open>context: Optional[str]\<close>. The result is the document after the call, or the exception
  that leaves the method.
\<close>

definition apply_heading_modification ::
  "LLMClient \<Rightarrow> (string option \<Rightarrow> bool) \<Rightarrow> document \<Rightarrow> string \<Rightarrow> string option \<Rightarrow> string option \<Rightarrow>
   TextBlock list \<Rightarrow> error + document" where
  "apply_heading_modification client font_ok doc target replacement context text_blocks =
     (let target_text = strip target;
          replacement_text =
            (if seems_ai_generated replacement
             then Some (humanize_text client (str_or_empty replacement))
             else replacement);
          matching_blocks = heading_matching_blocks target_text context text_blocks
      in if matching_blocks = [] then Inr doc
         else modify_heading_blocks font_ok replacement_text matching_blocks doc)"

text \<open>
  The rectangles that have been covered in a document, in order, each with its page:
  they tell which blocks a call has modified.
\<close>

definition drawn_rects :: "document \<Rightarrow> (nat \<times> double \<times> double \<times> double \<times> double) list" where
  "drawn_rects doc =
     concat (map (\<lambda>op. case op of Draw_rect pn rect \<Rightarrow> [(pn, rect)] | _ \<Rightarrow> []) (ops doc))"

section \<open>The edit-request parsers\<close>

text \<open>
  Python objects as \<open>json.loads\<close> returns them; \<open>null\<close> is \<open>None\<close>, and a
  dictionary is the list of its entries, with distinct keys. The fields of an
  \<open>EditRequest\<close> hold such objects: the dataclass does not check its annotations.
\<close>

datatype pyobj =
    PyNone
  | PyBool bool
  | PyNum rat
  | PyStr string
  | PyList "pyobj list"
  | PyDict "(string \<times> pyobj) list"

record EditRequest =
  action :: pyobj
  target_text :: pyobj
  replacement_text :: pyobj
  context_str :: pyobj

text \<open>
  The regular expressions of \<open>LLMClient._rule_based_parsing\<close>, in the order of the three
  lists of the source. Matching is the library's: \<open>re.finditer(pattern, prompt,
  re.IGNORECASE)\<close> is a parameter that gives, for each match in order, its groups. Three
  of the replace patterns have two groups and one has three; the highlight patterns have
  one group and the heading patterns two.
\<close>

datatype replace_pattern = Change_quoted | Replace_with | In_the_change | Change_flexible

datatype highlight_pattern = Highlight | Mark | Emphasize

datatype heading_pattern =
    Change_the_heading | Modify_heading | Change_the_title | Change_title_from
  | Change_heading_from | Replace_title | Replace_heading | Make_title | Title_change
  | Heading_change | Change_title_at_start

datatype groups = Groups2 string string | Groups3 string string string

record regex =
  finditer_replace :: "replace_pattern \<Rightarrow> string \<Rightarrow> groups list"
  finditer_highlight :: "highlight_pattern \<Rightarrow> string \<Rightarrow> string list"
  finditer_heading :: "heading_pattern \<Rightarrow> string \<Rightarrow> (string \<times> string) list"

definition replace_patterns :: "replace_pattern list" where
  "replace_patterns = [Change_quoted, Replace_with, In_the_change, Change_flexible]"

definition highlight_patterns :: "highlight_pattern list" where
  "highlight_patterns = [Highlight, Mark, Emphasize]"

definition heading_patterns :: "heading_pattern list" where
  "heading_patterns =
     [Change_the_heading, Modify_heading, Change_the_title, Change_title_from,
      Change_heading_from, Replace_title, Replace_heading, Make_title, Title_change,
      Heading_change, Change_title_at_start]"

text \<open>\<open>LLMClient._rule_based_parsing\<close>\<close>

definition rule_based_parsing :: "regex \<Rightarrow> string \<Rightarrow> EditRequest list" where
  "rule_based_parsing re prompt =
     (let edits = [];
          edits =
            fold (\<lambda>pattern edits.
                    fold (\<lambda>m edits.
                            case m of
                              Groups2 g1 g2 \<Rightarrow>
                                edits @ [\<lparr>action = PyStr ''replace'', target_text = PyStr g1,
                                           replacement_text = PyStr g2, context_str = PyNone\<rparr>]
                            | Groups3 g1 g2 g3 \<Rightarrow>
                                edits @ [\<lparr>action = PyStr ''replace'', target_text = PyStr g2,
                                           replacement_text = PyStr g3, context_str = PyStr g1\<rparr>])
                         (finditer_replace re pattern prompt) edits)
                 replace_patterns edits;
          edits =
            fold (\<lambda>pattern edits.
                    fold (\<lambda>g1 edits.
                            edits @ [\<lparr>action = PyStr ''highlight'', target_text = PyStr g1,
                                       replacement_text = PyNone, context_str = PyNone\<rparr>])
                         (finditer_highlight re pattern prompt) edits)
                 highlight_patterns edits;
          edits =
            fold (\<lambda>pattern edits.
                    fold (\<lambda>(g1, g2) edits.
                            edits @ [\<lparr>action = PyStr ''modify_heading'', target_text = PyStr g1,
                                       replacement_text = PyStr g2, context_str = PyNone\<rparr>])
                         (finditer_heading re pattern prompt) edits)
                 heading_patterns edits
      in edits)"

text \<open>
  Iterating over a decoded value (\<open>for item in edit_data\<close>): a list gives its items, a
  dictionary its keys, a string its characters; \<open>None\<close>, a boolean and a number raise
  \<open>TypeError\<close>.
\<close>

fun py_iter :: "pyobj \<Rightarrow> error + pyobj list" where
  "py_iter (PyList xs) = Inr xs"
| "py_iter (PyDict kvs) = Inr (map (\<lambda>kv. PyStr (fst kv)) kvs)"
| "py_iter (PyStr s) = Inr (map (\<lambda>c. PyStr [c]) s)"
| "py_iter PyNone = Inl TypeError"
| "py_iter (PyBool b) = Inl TypeError"
| "py_iter (PyNum n) = Inl TypeError"

text \<open>\<open>item.get(key)\<close> and \<open>key in item\<close> on a dictionary.\<close>

definition dict_get :: "(string \<times> pyobj) list \<Rightarrow> string \<Rightarrow> pyobj" where
  "dict_get kvs k = (case map_of kvs k of None \<Rightarrow> PyNone | Some v \<Rightarrow> v)"

definition dict_has :: "(string \<times> pyobj) list \<Rightarrow> string \<Rightarrow> bool" where
  "dict_has kvs k = (map_of kvs k \<noteq> None)"

text \<open>
  \<open>LLMClient._parse_edit_response\<close>. \<open>json.loads\<close> is the library's and is a
  parameter: it returns the decoded object or raises. Any exception in the \<open>try\<close> block
  is caught by the one handler.
\<close>

definition clean_response :: "string \<Rightarrow> string" where
  "clean_response response =
     (let cleaned = strip response;
          cleaned = (if startswith cleaned ''```json'' then drop 7 cleaned else cleaned);
          cleaned = (if endswith cleaned ''```'' then take (length cleaned - 3) cleaned
                     else cleaned)
      in strip cleaned)"

definition parse_edit_response ::
  "(string \<Rightarrow> error + pyobj) \<Rightarrow> regex \<Rightarrow> string \<Rightarrow> EditRequest list" where
  "parse_edit_response json_loads re response =
     (case json_loads (clean_response response) of
        Inl e \<Rightarrow> rule_based_parsing re response
      | Inr edit_data \<Rightarrow>
          (case py_iter edit_data of
             Inl e \<Rightarrow> rule_based_parsing re response
           | Inr items \<Rightarrow>
               fold (\<lambda>item edits.
                       case item of
                         PyDict kvs \<Rightarrow>
                           if dict_has kvs ''action'' \<and> dict_has kvs ''target_text''
                           then edits @ [\<lparr>action = dict_get kvs ''action'',
                                           target_text = dict_get kvs ''target_text'',
                                           replacement_text = dict_get kvs ''replacement_text'',
                                           context_str = dict_get kvs ''context''\<rparr>]
                           else edits
                       | _ \<Rightarrow> edits)
                    items []))"

section \<open>Properties of the text primitives and of the loops\<close>

lemma startswith_prefix: "startswith s p \<longleftrightarrow> prefix p s"
  by (induction s p rule: startswith.induct) auto

lemma str_in_sublist: "str_in sub s \<longleftrightarrow> sublist sub s"
  by (induction s) (auto simp: startswith_prefix sublist_Cons_right)






lemma fold_append_filter:
  "fold (\<lambda>b mb. if P b then mb @ [b] else mb) bs acc = acc @ filter P bs"
  by (induction bs arbitrary: acc) auto

lemma exact_loop_filter:
  "exact_loop tlow bs acc =
     acc @ filter (\<lambda>b. tlow = lower (text_str b) \<or> str_in tlow (lower (text_str b))) bs"
proof -
  have "exact_loop tlow bs acc =
        fold (\<lambda>b mb. if tlow = lower (text_str b) \<or> str_in tlow (lower (text_str b))
                      then mb @ [b] else mb) bs acc"
    unfolding exact_loop_def
    by (rule arg_cong[where f="\<lambda>f. fold f bs acc"]) (auto simp: fun_eq_iff)
  then show ?thesis by (simp add: fold_append_filter)
qed


lemma context_loop_filter:
  "context_loop t c bs acc = acc @ filter (\<lambda>b. fuzzy_match t (text_str b) c) bs"
  unfolding context_loop_def by (rule fold_append_filter)

lemma partial_loop_filter:
  "partial_loop ws bs acc =
     acc @ filter (\<lambda>b. (of_nat (len_set_inter ws (split (lower (text_str b)))) :: rat)
                         \<ge> of_nat (length ws) * (6 / 10)) bs"
  unfolding partial_loop_def Let_def by (rule fold_append_filter)

lemma find_matching_filter:
  "\<exists>P. find_matching_text_blocks t bs c = filter P bs"
  unfolding find_matching_text_blocks_def Let_def
  by (auto simp add: exact_loop_filter context_loop_filter partial_loop_filter
           simp del: filter_True)

text \<open>With no target words the third loop takes every block: its threshold is zero.\<close>

lemma partial_loop_no_words: "partial_loop [] bs [] = bs"
  by (simp add: partial_loop_filter len_set_inter_def)

text \<open>The loops of the extraction append to the list of text blocks.\<close>

lemma fold_fst_append:
  assumes "\<And>x st. fst (f x st) = fst st @ h x"
  shows "fst (fold f xs st) = fst st @ concat (map h xs)"
  using assms by (induction xs arbitrary: st) auto

lemma fold_snoc_map: "fold (\<lambda>x acc. acc @ [g x]) xs acc = acc @ map g xs"
  by (induction xs arbitrary: acc) auto

lemma fold_lines_sizes:
  "fold (\<lambda>line fs. fold (\<lambda>span fs. fs @ [s_size span]) line fs) lines fs
     = fs @ map s_size (concat lines)"
  by (induction lines arbitrary: fs) (auto simp: fold_snoc_map)

lemma fold_blocks_sizes:
  "fold (\<lambda>block fs.
           case block of
             None \<Rightarrow> fs
           | Some lines \<Rightarrow>
               fold (\<lambda>line fs. fold (\<lambda>span fs. fs @ [s_size span]) line fs) lines fs)
        blocks fs
     = fs @ map s_size (page_spans blocks)"
  by (induction blocks arbitrary: fs)
     (auto simp: page_spans_def fold_lines_sizes split: option.splits)

lemma calculate_average_font_size_spans:
  "calculate_average_font_size float_sum blocks =
     (if page_spans blocks = [] then Finite 12
      else float_div_len (float_sum (map s_size (page_spans blocks)))
             (length (page_spans blocks)))"
  unfolding calculate_average_font_size_def Let_def fold_blocks_sizes by simp

lemma extract_span_fst:
  "fst (extract_span float_sum pn blocks sp st) =
     fst st @
     (if strip (s_text sp) \<noteq> []
      then [(TextBlock_init (strip (s_text sp)) (s_bbox sp) pn (s_size sp) (Some (s_font sp)))
              \<lparr>is_heading := TextBlock_is_heading (strip (s_text sp))
                  \<or> float_less (float_mul (calculate_average_font_size float_sum blocks)
                                   (round_double (12 / 10)))
                       (s_size sp)\<rparr>]
      else [])"
  by (auto simp: extract_span_def Let_def TextBlock_init_def)

lemma concat_blocks_spans:
  "concat (map (\<lambda>block. case block of None \<Rightarrow> []
                  | Some lines \<Rightarrow> concat (map h (concat lines))) bs)
     = concat (map h (concat (map (\<lambda>block. case block of None \<Rightarrow> [] | Some lines \<Rightarrow> concat lines) bs)))"
  by (induction bs) (auto split: option.splits)

lemma map_concat_singletons:
  "map f (concat (map (\<lambda>x. if P x then [g x] else []) xs)) = map (\<lambda>x. f (g x)) (filter P xs)"
  by (induction xs) auto

lemma extract_page_fst:
  "fst (extract_page float_sum pn blocks st) =
     fst st @ concat (map (\<lambda>sp. fst (extract_span float_sum pn blocks sp ([], [])))
                          (page_spans blocks))"
proof -
  let ?h = "\<lambda>sp. fst (extract_span float_sum pn blocks sp ([], []))"
  have sp: "\<And>sp st. fst (extract_span float_sum pn blocks sp st) = fst st @ ?h sp"
    by (simp add: extract_span_fst)
  have ln: "\<And>line st. fst (fold (extract_span float_sum pn blocks) line st)
               = fst st @ concat (map ?h line)"
    by (rule fold_fst_append) (rule sp)
  have lns: "\<And>lines st.
               fst (fold (\<lambda>line st. fold (extract_span float_sum pn blocks) line st) lines st)
                 = fst st @ concat (map (\<lambda>line. concat (map ?h line)) lines)"
    by (rule fold_fst_append) (rule ln)
  have cc: "\<And>lines. concat (map (\<lambda>line. concat (map ?h line)) lines) = concat (map ?h (concat lines))"
    by (induct_tac lines) auto
  have "fst (extract_page float_sum pn blocks st) =
        fst st @ concat (map (\<lambda>block. case block of None \<Rightarrow> []
                                | Some lines \<Rightarrow> concat (map ?h (concat lines))) blocks)"
    unfolding extract_page_def
    by (rule fold_fst_append) (auto simp: lns cc split: option.splits)
  also have "concat (map (\<lambda>block. case block of None \<Rightarrow> []
                                | Some lines \<Rightarrow> concat (map ?h (concat lines))) blocks)
             = concat (map ?h (page_spans blocks))"
    unfolding page_spans_def by (rule concat_blocks_spans)
  finally show ?thesis .
qed

lemma extract_text_blocks_fst:
  "fst (extract_text_blocks float_sum doc) =
     concat (map (\<lambda>(pn, blocks). fst (extract_page float_sum pn blocks ([], [])))
                 (enumerate 0 doc))"
proof -
  have "fst (fold (\<lambda>p st. extract_page float_sum (fst p) (snd p) st) (enumerate 0 doc) ([], []))
        = fst (([], []) :: TextBlock list \<times> string)
          @ concat (map (\<lambda>p. fst (extract_page float_sum (fst p) (snd p) ([], [])))
                        (enumerate 0 doc))"
    by (rule fold_fst_append
              [where f = "\<lambda>p st. extract_page float_sum (fst p) (snd p) st"
                 and h = "\<lambda>p. fst (extract_page float_sum (fst p) (snd p) ([], []))"])
       (simp add: extract_page_fst)
  then show ?thesis unfolding extract_text_blocks_def Let_def case_prod_unfold by simp
qed

lemma map_is_heading_page:
  "map is_heading (fst (extract_page float_sum pn blocks ([], []))) =
     map (\<lambda>sp. TextBlock_is_heading (strip (s_text sp))
                \<or> float_less (float_mul (calculate_average_font_size float_sum blocks)
                                 (round_double (12 / 10)))
                     (s_size sp))
         (filter (\<lambda>sp. strip (s_text sp) \<noteq> []) (page_spans blocks))"
proof -
  have "fst (extract_page float_sum pn blocks ([], [])) =
        concat (map (\<lambda>sp. if strip (s_text sp) \<noteq> []
                 then [(TextBlock_init (strip (s_text sp)) (s_bbox sp) pn (s_size sp) (Some (s_font sp)))
                        \<lparr>is_heading := TextBlock_is_heading (strip (s_text sp))
                           \<or> float_less (float_mul (calculate_average_font_size float_sum blocks)
                                            (round_double (12 / 10)))
                                (s_size sp)\<rparr>]
                 else []) (page_spans blocks))"
    by (simp add: extract_page_fst extract_span_fst)
  then show ?thesis by (simp add: map_concat_singletons)
qed

lemma map_snd_of_enumerate: "map (\<lambda>p. F (snd p)) (enumerate n xs) = map F xs"
  by (induction xs arbitrary: n) auto

lemma extracted_block_flag:
  assumes "tb \<in> set (fst (extract_text_blocks float_sum doc))"
  shows "TextBlock_is_heading (text_str tb) \<longrightarrow> is_heading tb"
proof -
  from assms obtain pn blocks where
    "tb \<in> set (fst (extract_page float_sum pn blocks ([], [])))"
    by (auto simp: extract_text_blocks_fst)
  then obtain sp where "tb \<in> set (fst (extract_span float_sum pn blocks sp ([], [])))"
    by (auto simp: extract_page_fst)
  then show ?thesis
    by (auto simp: extract_span_fst TextBlock_init_def split: if_splits)
qed

text \<open>The matcher and the heading search return blocks of their input.\<close>

lemma find_matching_subset: "set (find_matching_text_blocks t bs c) \<subseteq> set bs"
proof -
  obtain P where "find_matching_text_blocks t bs c = filter P bs"
    using find_matching_filter by blast
  then show ?thesis by simp
qed

lemma potential_fold_filter:
  "fold (\<lambda>block p. if potential_heading block then p @ [block] else p) bs [] =
     filter potential_heading bs"
  by (simp add: fold_append_filter)

lemma heading_matching_blocks_cases:
  "heading_matching_blocks t c bs =
     (if find_matching_text_blocks t (filter is_heading bs) c \<noteq> []
      then find_matching_text_blocks t (filter is_heading bs) c
      else if find_matching_text_blocks t (filter potential_heading bs) c \<noteq> []
      then find_matching_text_blocks t (filter potential_heading bs) c
      else find_matching_text_blocks t bs c)"
  by (simp add: heading_matching_blocks_def Let_def potential_fold_filter)

lemma heading_matching_subset: "set (heading_matching_blocks t c bs) \<subseteq> set bs"
proof -
  have "set (find_matching_text_blocks t (filter is_heading bs) c) \<subseteq> set bs"
    using find_matching_subset [of t "filter is_heading bs" c] by auto
  moreover have "set (find_matching_text_blocks t (filter potential_heading bs) c) \<subseteq> set bs"
    using find_matching_subset [of t "filter potential_heading bs" c] by auto
  ultimately show ?thesis
    using find_matching_subset [of t bs c] by (simp add: heading_matching_blocks_cases)
qed

text \<open>A modified block has its rectangle covered, and nothing else is covered.\<close>

lemma insert_text_drawn:
  assumes "insert_text font_ok pn point txt fontsize fontname doc = Inr doc'"
  shows "drawn_rects doc' = drawn_rects doc"
  using assms by (auto simp: insert_text_def drawn_rects_def split: if_splits)

lemma try_fallback_fonts_drawn:
  assumes "try_fallback_fonts font_ok pn point txt fontsize fonts doc = Some doc'"
  shows "drawn_rects doc' = drawn_rects doc"
  using assms
  by (induction fonts) (auto simp: insert_text_drawn split: sum.splits)

lemma modify_heading_block_drawn:
  assumes "modify_heading_block font_ok new_text block doc = Inr doc'"
  shows "drawn_rects doc' = drawn_rects doc @ [(page_num block, bbox block)]"
proof -
  have d: "drawn_rects (draw_rect (page_num block) (bbox block) doc)
           = drawn_rects doc @ [(page_num block, bbox block)]"
    by (simp add: draw_rect_def drawn_rects_def)
  from assms show ?thesis
    by (auto simp: modify_heading_block_def Let_def d
             dest!: insert_text_drawn try_fallback_fonts_drawn
             split: if_splits sum.splits option.splits)
qed

lemma modify_heading_blocks_drawn:
  assumes "modify_heading_blocks font_ok new_text blocks doc = Inr doc'"
  shows "drawn_rects doc' = drawn_rects doc @ map (\<lambda>b. (page_num b, bbox b)) blocks"
  using assms
proof (induction blocks arbitrary: doc)
  case Nil
  then show ?case by simp
next
  case (Cons b blocks)
  then obtain d where d: "modify_heading_block font_ok new_text b doc = Inr d"
    and r: "modify_heading_blocks font_ok new_text blocks d = Inr doc'"
    by (auto split: sum.splits)
  show ?case using Cons.IH [OF r] modify_heading_block_drawn [OF d] by simp
qed

text \<open>The score of the AI-text heuristic counts the indicators that occur in the text.\<close>

lemma ai_indicators_distinct: "distinct ai_indicators"
  by (simp add: ai_indicators_def)

lemma sum_list_ones: "sum_list (map (\<lambda>x. (1::nat)) xs) = length xs"
  by (induction xs) auto

lemma ai_score_card:
  "sum_list (map (\<lambda>indicator. (1::nat)) (filter (\<lambda>indicator. str_in indicator s) ai_indicators))
     = card {p \<in> set ai_indicators. sublist p s}"
proof -
  have "sum_list (map (\<lambda>indicator. (1::nat)) (filter (\<lambda>indicator. str_in indicator s) ai_indicators))
        = length (filter (\<lambda>indicator. str_in indicator s) ai_indicators)"
    by (rule sum_list_ones)
  also have "\<dots> = length (filter (\<lambda>p. sublist p s) ai_indicators)"
    by (simp only: str_in_sublist)
  also have "\<dots> = card ({p. sublist p s} \<inter> set ai_indicators)"
    by (rule distinct_length_filter) (rule ai_indicators_distinct)
  also have "{p. sublist p s} \<inter> set ai_indicators = {p \<in> set ai_indicators. sublist p s}"
    by auto
  finally show ?thesis .
qed

lemma fold_keep: "fold (\<lambda>x acc. acc) xs acc = acc"
  by (induction xs) auto

section \<open>The matcher\<close>

text \<open>
  C1. The matcher is a staged fallback. If the exact/substring loop finds a block, the
  result is what that loop found, and the other two loops contribute nothing. If it
  finds none, a context is given and the context loop finds a block, the result is what
  the context loop found. Otherwise the result is what the word-overlap loop finds.
\<close>

theorem find_matching_staged:
  "(exact_loop (lower t) bs [] \<noteq> [] \<longrightarrow>
      find_matching_text_blocks t bs c = exact_loop (lower t) bs [])
   \<and> (exact_loop (lower t) bs [] = [] \<and> truthy c \<and> context_loop t c bs [] \<noteq> [] \<longrightarrow>
      find_matching_text_blocks t bs c = context_loop t c bs [])
   \<and> (exact_loop (lower t) bs [] = [] \<and> \<not> (truthy c \<and> context_loop t c bs [] \<noteq> []) \<longrightarrow>
      find_matching_text_blocks t bs c = partial_loop (split (lower t)) bs [])"
  by (simp add: find_matching_text_blocks_def Let_def)

text \<open>
  A scenario where the first and the third stage disagree: the target "quick fox" is a
  substring of the first block only, while the word-overlap loop alone would take both.
\<close>

theorem find_matching_staged_witness:
  "exact_loop (lower ''quick fox'')
     [TextBlock_init ''the quick fox'' (Finite 0, Finite 0, Finite 0, Finite 0) 0 (Finite 12) None,
      TextBlock_init ''fox is quick'' (Finite 0, Finite 0, Finite 0, Finite 0) 0 (Finite 12) None] [] \<noteq> []
   \<and> map text_str (find_matching_text_blocks ''quick fox''
        [TextBlock_init ''the quick fox'' (Finite 0, Finite 0, Finite 0, Finite 0) 0 (Finite 12) None,
         TextBlock_init ''fox is quick'' (Finite 0, Finite 0, Finite 0, Finite 0) 0 (Finite 12) None] None)
       = [''the quick fox'']
   \<and> map text_str (partial_loop (split (lower ''quick fox''))
        [TextBlock_init ''the quick fox'' (Finite 0, Finite 0, Finite 0, Finite 0) 0 (Finite 12) None,
         TextBlock_init ''fox is quick'' (Finite 0, Finite 0, Finite 0, Finite 0) 0 (Finite 12) None] [])
       = [''the quick fox'', ''fox is quick'']"
proof -
  let ?bs = "[TextBlock_init ''the quick fox'' (Finite 0, Finite 0, Finite 0, Finite 0) 0 (Finite 12) None,
              TextBlock_init ''fox is quick'' (Finite 0, Finite 0, Finite 0, Finite 0) 0 (Finite 12) None]"
  have e: "map text_str (exact_loop (lower ''quick fox'') ?bs []) = [''the quick fox'']"
    by code_simp
  then have ne: "exact_loop (lower ''quick fox'') ?bs [] \<noteq> []" by auto
  have "find_matching_text_blocks ''quick fox'' ?bs None = exact_loop (lower ''quick fox'') ?bs []"
    using find_matching_staged [of "''quick fox''" ?bs None] ne by blast
  moreover have "map text_str (partial_loop (split (lower ''quick fox'')) ?bs [])
       = [''the quick fox'', ''fox is quick'']" by code_simp
  ultimately show ?thesis using e ne by simp
qed




text \<open>
  C10. The result of the matcher is a selection from its input: it is the input list
  filtered by some predicate, hence a subsequence of the input in the input's order,
  every returned block is a block of the input, and a block list without repetition
  gives a result without repetition.
\<close>

theorem find_matching_selection:
  "(\<exists>P. find_matching_text_blocks t bs c = filter P bs)
   \<and> subseq (find_matching_text_blocks t bs c) bs
   \<and> set (find_matching_text_blocks t bs c) \<subseteq> set bs
   \<and> (distinct bs \<longrightarrow> distinct (find_matching_text_blocks t bs c))"
proof -
  obtain P where P: "find_matching_text_blocks t bs c = filter P bs"
    using find_matching_filter by blast
  show ?thesis unfolding P by auto
qed

theorem find_matching_selection_witness:
  "distinct [TextBlock_init ''the quick fox'' (Finite 0, Finite 0, Finite 0, Finite 0) 0 (Finite 12) None,
             TextBlock_init ''fox is quick'' (Finite 0, Finite 0, Finite 0, Finite 0) 0 (Finite 12) None]
   \<and> distinct (find_matching_text_blocks ''fox''
        [TextBlock_init ''the quick fox'' (Finite 0, Finite 0, Finite 0, Finite 0) 0 (Finite 12) None,
         TextBlock_init ''fox is quick'' (Finite 0, Finite 0, Finite 0, Finite 0) 0 (Finite 12) None] None)
   \<and> subseq (find_matching_text_blocks ''fox''
        [TextBlock_init ''the quick fox'' (Finite 0, Finite 0, Finite 0, Finite 0) 0 (Finite 12) None,
         TextBlock_init ''fox is quick'' (Finite 0, Finite 0, Finite 0, Finite 0) 0 (Finite 12) None] None)
        [TextBlock_init ''the quick fox'' (Finite 0, Finite 0, Finite 0, Finite 0) 0 (Finite 12) None,
         TextBlock_init ''fox is quick'' (Finite 0, Finite 0, Finite 0, Finite 0) 0 (Finite 12) None]"
proof -
  let ?bs = "[TextBlock_init ''the quick fox'' (Finite 0, Finite 0, Finite 0, Finite 0) 0 (Finite 12) None,
              TextBlock_init ''fox is quick'' (Finite 0, Finite 0, Finite 0, Finite 0) 0 (Finite 12) None]"
  have d: "distinct ?bs" by (simp add: TextBlock_init_def)
  show ?thesis using d find_matching_selection [of "''fox''" ?bs None] by blast
qed

section \<open>The fuzzy-match predicate\<close>

text \<open>
  C5, as claimed: for the target "AI" and the text "Artificial Intelligence is growing"
  with no context the predicate would be true by the substring rule. It is false.
\<close>

theorem fuzzy_match_AI_counterexample:
  "\<not> fuzzy_match ''AI'' ''Artificial Intelligence is growing'' None"
  by code_simp

text \<open>
  C5, amended. The lowercased target "ai" is not a substring of the lowercased text (nor
  of "artificial"), so the substring rule does not apply; no target word is a word of
  the text, and exactly half of the words of the text start with a capital, so the text
  is not heading-like; the predicate returns false.
\<close>

theorem fuzzy_match_AI:
  "\<not> str_in (lower ''AI'') (lower ''Artificial Intelligence is growing'')
   \<and> \<not> sublist ''ai'' ''artificial''
   \<and> len_set_inter (split (lower ''AI'')) (split (lower ''Artificial Intelligence is growing'')) = 0
   \<and> capitalized_ratio (split ''Artificial Intelligence is growing'') = 1 / 2
   \<and> fuzzy_match ''AI'' ''Artificial Intelligence is growing'' None = False"
  by code_simp

section \<open>The fallback humanizer\<close>

text \<open>
  C8. On "The system utilizes furthermore optimized methods" the fallback humanizer
  returns "This system uses also optimized methods": "utilize" inside "utilizes" is
  replaced by "use", "furthermore" by "also", and the leading "The system" by
  "This system".
\<close>

theorem simple_humanize_example:
  "simple_humanize ''The system utilizes furthermore optimized methods''
     = ''This system uses also optimized methods''
   \<and> replace ''utilizes'' ''utilize'' ''use'' = ''uses''
   \<and> startswith (simple_humanize ''The system utilizes furthermore optimized methods'')
        ''This system''"
  by code_simp

section \<open>Heading classification during extraction\<close>

text \<open>
  C3, as claimed: the threshold of the font-size upgrade would be 1.2 times the average
  over the structural block of the span. On a page of two blocks, one span of size 10 and
  one span "a, b" of size 30, the second span is not a heading by the text rules and its
  size does not exceed 1.2 times the average of its own block (36), yet the extraction
  flags it as a heading. The sums of this page are exact.
\<close>

theorem heading_upgrade_block_scoped_counterexample:
  "map is_heading (fst (extract_text_blocks plain_sum
      [[Some [[\<lparr>s_text = ''body text, small'',
                 s_bbox = (Finite 0, Finite 0, Finite 0, Finite 0),
                 s_size = Finite 10, s_font = ''helv''\<rparr>]],
        Some [[\<lparr>s_text = ''a, b'', s_bbox = (Finite 0, Finite 0, Finite 0, Finite 0),
                 s_size = Finite 30, s_font = ''helv''\<rparr>]]]]))
     = [False, True]
   \<and> \<not> TextBlock_is_heading ''a, b''
   \<and> \<not> float_less
         (float_mul
            (calculate_average_font_size plain_sum
               [Some [[\<lparr>s_text = ''a, b'', s_bbox = (Finite 0, Finite 0, Finite 0, Finite 0),
                        s_size = Finite 30, s_font = ''helv''\<rparr>]]])
            (round_double (12 / 10)))
         (Finite 30)"
  by code_simp

text \<open>
  C3, amended. The average is taken over all spans of the page of the span (the integer 12
  when the page has no span): it is the float sum of their sizes divided by their
  number. After extraction the flags of the text blocks are, page by page and span by
  span over the spans with non-empty trimmed text, the disjunction of the text rules on
  the trimmed text and of the float comparison \<open>size > average * 1.2\<close>.
\<close>

theorem heading_upgrade_page_average:
  "map is_heading (fst (extract_text_blocks float_sum doc)) =
     concat (map (\<lambda>blocks.
                    map (\<lambda>sp. TextBlock_is_heading (strip (s_text sp))
                               \<or> float_less
                                    (float_mul (calculate_average_font_size float_sum blocks)
                                       (round_double (12 / 10)))
                                    (s_size sp))
                        (filter (\<lambda>sp. strip (s_text sp) \<noteq> []) (page_spans blocks)))
                 doc)
   \<and> calculate_average_font_size float_sum page =
       (if page_spans page = [] then Finite 12
        else float_div_len (float_sum (map s_size (page_spans page)))
               (length (page_spans page)))"
proof -
  let ?F = "\<lambda>blocks.
              map (\<lambda>sp. TextBlock_is_heading (strip (s_text sp))
                         \<or> float_less
                              (float_mul (calculate_average_font_size float_sum blocks)
                                 (round_double (12 / 10)))
                              (s_size sp))
                  (filter (\<lambda>sp. strip (s_text sp) \<noteq> []) (page_spans blocks))"
  have "map is_heading (fst (extract_text_blocks float_sum doc))
        = concat (map (\<lambda>p. map is_heading (fst (extract_page float_sum (fst p) (snd p) ([], []))))
                      (enumerate 0 doc))"
    by (simp add: extract_text_blocks_fst map_concat case_prod_unfold comp_def)
  also have "\<dots> = concat (map (\<lambda>p. ?F (snd p)) (enumerate 0 doc))"
    by (simp add: map_is_heading_page)
  also have "\<dots> = concat (map ?F doc)"
    by (rule arg_cong [where f = concat]) (rule map_snd_of_enumerate [where F = ?F])
  finally show ?thesis by (simp add: calculate_average_font_size_spans)
qed

text \<open>
  The comparison is the one of the floats: on a page with spans of sizes 7, 14 and 14 the
  average is 11.666666666666666 and 1.2 times it is 13.999999999999998, below 14, so
  the two spans of size 14 are flagged.
\<close>

lemma heading_upgrade_rounding_example:
  "map is_heading (fst (extract_text_blocks plain_sum
      [[Some [[\<lparr>s_text = ''one, small'', s_bbox = (Finite 0, Finite 0, Finite 0, Finite 0),
                 s_size = Finite 7, s_font = ''helv''\<rparr>,
               \<lparr>s_text = ''two, large'', s_bbox = (Finite 0, Finite 0, Finite 0, Finite 0),
                 s_size = Finite 14, s_font = ''helv''\<rparr>,
               \<lparr>s_text = ''three, large'', s_bbox = (Finite 0, Finite 0, Finite 0, Finite 0),
                 s_size = Finite 14, s_font = ''helv''\<rparr>]]]]))
     = [False, True, True]"
  by code_simp

text \<open>
  C9. The flag \<open>is_heading\<close> is monotone. A span with non-empty trimmed text appends one
  block, which is the constructed block with its flag replaced by the disjunction of the
  flag set at construction and of the font-size comparison; a span with empty trimmed
  text changes nothing, so the blocks appended before keep their flags. Every extracted
  block whose text the text rules classify as a heading has its flag set. The matcher
  and the heading search return blocks of their input as they are.
\<close>

theorem is_heading_monotone:
  "(strip (s_text sp) \<noteq> [] \<longrightarrow>
      fst (extract_span float_sum pn blocks sp (tbs, full)) =
        tbs @ [(TextBlock_init (strip (s_text sp)) (s_bbox sp) pn (s_size sp) (Some (s_font sp)))
                 \<lparr>is_heading :=
                    is_heading (TextBlock_init (strip (s_text sp)) (s_bbox sp) pn (s_size sp)
                                  (Some (s_font sp)))
                    \<or> float_less
                         (float_mul (calculate_average_font_size float_sum blocks)
                            (round_double (12 / 10)))
                         (s_size sp)\<rparr>])
   \<and> (strip (s_text sp) = [] \<longrightarrow>
        extract_span float_sum pn blocks sp (tbs, full) = (tbs, full))
   \<and> (tb \<in> set (fst (extract_text_blocks float_sum doc)) \<and> TextBlock_is_heading (text_str tb)
        \<longrightarrow> is_heading tb)
   \<and> set (find_matching_text_blocks t bs c) \<subseteq> set bs
   \<and> set (heading_matching_blocks t c bs) \<subseteq> set bs"
  using extracted_block_flag [of tb float_sum doc] find_matching_subset [of t bs c]
        heading_matching_subset [of t c bs]
  by (simp add: extract_span_fst) (simp add: extract_span_def TextBlock_init_def)

theorem is_heading_monotone_witness:
  "strip ''Introduction'' \<noteq> []
   \<and> TextBlock_is_heading ''Introduction''
   \<and> map is_heading (fst (extract_span plain_sum 0
        [Some [[\<lparr>s_text = ''Introduction'', s_bbox = (Finite 0, Finite 0, Finite 0, Finite 0),
                 s_size = Finite 12, s_font = ''helv''\<rparr>]]]
        \<lparr>s_text = ''Introduction'', s_bbox = (Finite 0, Finite 0, Finite 0, Finite 0),
          s_size = Finite 12, s_font = ''helv''\<rparr>
        ([], []))) = [True]"
proof -
  let ?sp = "\<lparr>s_text = ''Introduction'', s_bbox = (Finite 0, Finite 0, Finite 0, Finite 0),
              s_size = Finite 12, s_font = ''helv''\<rparr>"
  have ne: "strip (s_text ?sp) \<noteq> []" by code_simp
  have h: "TextBlock_is_heading ''Introduction''" by code_simp
  have s: "strip ''Introduction'' = ''Introduction''" by code_simp
  from ne is_heading_monotone [of ?sp plain_sum 0 "[Some [[?sp]]]" "[]" "[]"]
  have "fst (extract_span plain_sum 0 [Some [[?sp]]] ?sp ([], [])) =
        [] @ [(TextBlock_init (strip (s_text ?sp)) (s_bbox ?sp) 0 (s_size ?sp) (Some (s_font ?sp)))
                 \<lparr>is_heading :=
                    is_heading (TextBlock_init (strip (s_text ?sp)) (s_bbox ?sp) 0 (s_size ?sp)
                                  (Some (s_font ?sp)))
                    \<or> float_less
                         (float_mul (calculate_average_font_size plain_sum [Some [[?sp]]])
                            (round_double (12 / 10)))
                         (s_size ?sp)\<rparr>]"
    by blast
  then show ?thesis using ne h s by (simp add: TextBlock_init_def)
qed

section \<open>Resolution of a heading modification\<close>

text \<open>
  C4. A heading modification resolves its candidates in three searches, on the stripped
  target: the matcher on the blocks flagged as headings; if that is empty, on the blocks
  that pass the looser filter (fewer than 15 words, font size at least 11, none of comma,
  semicolon and colon, more than four tenths of the words capitalized); if that is empty
  too, on all blocks. The call modifies the blocks of the first search that finds any,
  and only those: when it returns, the rectangles it has covered are those of these
  blocks, in order. If the three searches find nothing, the call returns without error
  and the document is the one it was given.
\<close>

theorem heading_modification_staged:
  "(let t = strip t0;
        s1 = find_matching_text_blocks t (filter is_heading bs) c;
        s2 = find_matching_text_blocks t (filter potential_heading bs) c;
        s3 = find_matching_text_blocks t bs c;
        mb = (if s1 \<noteq> [] then s1 else if s2 \<noteq> [] then s2 else s3);
        new_text = (if seems_ai_generated r then Some (humanize_text client (str_or_empty r))
                    else r)
    in apply_heading_modification client font_ok doc t0 r c bs =
         (if mb = [] then Inr doc else modify_heading_blocks font_ok new_text mb doc)
       \<and> (\<forall>doc'. apply_heading_modification client font_ok doc t0 r c bs = Inr doc' \<longrightarrow>
             drawn_rects doc' = drawn_rects doc @ map (\<lambda>b. (page_num b, bbox b)) mb))
   \<and> potential_heading b =
       (length (split (text_str b)) < 15 \<and> float_le (Finite 11) (font_size b)
        \<and> \<not> str_in '','' (text_str b) \<and> \<not> str_in '';'' (text_str b) \<and> \<not> str_in '':'' (text_str b)
        \<and> capitalized_ratio (split (text_str b)) > 4 / 10)"
proof -
  define t where "t = strip t0"
  define mb where "mb = heading_matching_blocks t c bs"
  define new_text where
    "new_text = (if seems_ai_generated r then Some (humanize_text client (str_or_empty r)) else r)"
  have a: "apply_heading_modification client font_ok doc t0 r c bs =
           (if mb = [] then Inr doc else modify_heading_blocks font_ok new_text mb doc)"
    by (simp add: apply_heading_modification_def Let_def t_def mb_def new_text_def)
  have d: "drawn_rects doc' = drawn_rects doc @ map (\<lambda>b. (page_num b, bbox b)) mb"
    if "apply_heading_modification client font_ok doc t0 r c bs = Inr doc'" for doc'
  proof (cases "mb = []")
    case True
    then show ?thesis using that a by simp
  next
    case False
    then have "modify_heading_blocks font_ok new_text mb doc = Inr doc'"
      using that a by simp
    then show ?thesis by (rule modify_heading_blocks_drawn)
  qed
  have p: "potential_heading b =
       (length (split (text_str b)) < 15 \<and> float_le (Finite 11) (font_size b)
        \<and> \<not> str_in '','' (text_str b) \<and> \<not> str_in '';'' (text_str b) \<and> \<not> str_in '':'' (text_str b)
        \<and> capitalized_ratio (split (text_str b)) > 4 / 10)"
    by (auto simp: potential_heading_def any_char_in_def)
  have m: "mb = (if find_matching_text_blocks t (filter is_heading bs) c \<noteq> []
                 then find_matching_text_blocks t (filter is_heading bs) c
                 else if find_matching_text_blocks t (filter potential_heading bs) c \<noteq> []
                 then find_matching_text_blocks t (filter potential_heading bs) c
                 else find_matching_text_blocks t bs c)"
    unfolding mb_def by (rule heading_matching_blocks_cases)
  show ?thesis
    unfolding Let_def t_def [symmetric] new_text_def [symmetric] m [symmetric]
    using a d p by blast
qed

text \<open>
  A request whose target "Overview" occurs in a heading and in a body block: the search
  over the headings finds the heading, which alone is modified, while the search over
  all blocks would have found both.
\<close>

theorem heading_modification_staged_witness:
  "map text_str (find_matching_text_blocks (strip '' Overview '')
        (filter is_heading
           [TextBlock_init ''Project Overview'' (Finite 0, Finite 0, Finite 100, Finite 20) 0
              (Finite 10) (Some ''helv''),
            TextBlock_init ''an overview, given below'' (Finite 0, Finite 30, Finite 100, Finite 50) 0
              (Finite 10) (Some ''helv'')]) None) = [''Project Overview'']
   \<and> map text_str (find_matching_text_blocks (strip '' Overview '')
           [TextBlock_init ''Project Overview'' (Finite 0, Finite 0, Finite 100, Finite 20) 0
              (Finite 10) (Some ''helv''),
            TextBlock_init ''an overview, given below'' (Finite 0, Finite 30, Finite 100, Finite 50) 0
              (Finite 10) (Some ''helv'')] None)
       = [''Project Overview'', ''an overview, given below'']
   \<and> apply_heading_modification \<lparr>openai_available = False, call_openai = (\<lambda>p. Inl APIError)\<rparr>
        (\<lambda>f. True) \<lparr>page_count = 1, ops = []\<rparr> '' Overview '' (Some ''Summary'') None
        [TextBlock_init ''Project Overview'' (Finite 0, Finite 0, Finite 100, Finite 20) 0
           (Finite 10) (Some ''helv''),
         TextBlock_init ''an overview, given below'' (Finite 0, Finite 30, Finite 100, Finite 50) 0
           (Finite 10) (Some ''helv'')]
       = Inr \<lparr>page_count = 1,
              ops = [Draw_rect 0 (Finite 0, Finite 0, Finite 100, Finite 20),
                     Insert_text 0 (Finite 0, Finite 8) (Some ''Summary'') (Finite 10)
                       (Some ''helv'')]\<rparr>
   \<and> drawn_rects \<lparr>page_count = 1,
              ops = [Draw_rect 0 (Finite 0, Finite 0, Finite 100, Finite 20),
                     Insert_text 0 (Finite 0, Finite 8) (Some ''Summary'') (Finite 10)
                       (Some ''helv'')]\<rparr>
       = [(0, (Finite 0, Finite 0, Finite 100, Finite 20))]"
proof -
  let ?bs = "[TextBlock_init ''Project Overview'' (Finite 0, Finite 0, Finite 100, Finite 20) 0
                (Finite 10) (Some ''helv''),
              TextBlock_init ''an overview, given below'' (Finite 0, Finite 30, Finite 100, Finite 50) 0
                (Finite 10) (Some ''helv'')]"
  let ?client = "\<lparr>openai_available = False, call_openai = (\<lambda>p. Inl APIError)\<rparr>"
  let ?doc = "\<lparr>page_count = 1, ops = []\<rparr>"
  let ?doc' = "\<lparr>page_count = 1,
              ops = [Draw_rect 0 (Finite 0, Finite 0, Finite 100, Finite 20),
                     Insert_text 0 (Finite 0, Finite 8) (Some ''Summary'') (Finite 10)
                       (Some ''helv'')]\<rparr>"
  let ?s1 = "find_matching_text_blocks (strip '' Overview '') (filter is_heading ?bs) None"
  have s1: "map text_str ?s1 = [''Project Overview'']"
    by code_simp
  then have ne: "?s1 \<noteq> []" by auto
  have s3: "map text_str (find_matching_text_blocks (strip '' Overview '') ?bs None)
       = [''Project Overview'', ''an overview, given below'']"
    by code_simp
  have r: "\<not> seems_ai_generated (Some ''Summary'')" by code_simp
  have m: "modify_heading_blocks (\<lambda>f. True) (Some ''Summary'') ?s1 ?doc = Inr ?doc'"
    by code_simp
  have "apply_heading_modification ?client (\<lambda>f. True) ?doc '' Overview '' (Some ''Summary'') None ?bs
        = modify_heading_blocks (\<lambda>f. True) (Some ''Summary'') ?s1 ?doc"
    using heading_modification_staged
            [of "'' Overview ''" ?bs None "Some ''Summary''" ?client "\<lambda>f. True" ?doc
                "TextBlock_init ''Project Overview'' (Finite 0, Finite 0, Finite 100, Finite 20) 0
                   (Finite 10) (Some ''helv'')"]
          ne r
    by (simp add: Let_def)
  then have ap: "apply_heading_modification ?client (\<lambda>f. True) ?doc '' Overview ''
                   (Some ''Summary'') None ?bs = Inr ?doc'"
    using m by simp
  have dr: "drawn_rects ?doc' = [(0, (Finite 0, Finite 0, Finite 100, Finite 20))]"
    by (simp add: drawn_rects_def)
  show ?thesis using s1 s3 ap dr by blast
qed

section \<open>Parsing the reply of the language model\<close>

text \<open>
  C6, as claimed: every reply that is not a JSON list would be handed to the rule-based
  parser. The reply that is the JSON string "highlight Intro", quotes included, decodes
  to a Python string; the loop runs over its characters, finds no dictionary and returns
  the empty list, while the rule-based parser finds the highlight request in the reply.
  The decoder and the matcher stand for the library on this reply.
\<close>

theorem parse_edit_response_counterexample:
  "parse_edit_response
     (\<lambda>s. if s = CHR 0x22 # ''highlight Intro'' @ [CHR 0x22] then Inr (PyStr ''highlight Intro'')
           else Inl JSONDecodeError)
     \<lparr>finditer_replace = (\<lambda>p s. []),
      finditer_highlight =
        (\<lambda>p s. if p = Highlight \<and> s = CHR 0x22 # ''highlight Intro'' @ [CHR 0x22]
                then [''Intro''] else []),
      finditer_heading = (\<lambda>p s. [])\<rparr>
     (CHR 0x22 # ''highlight Intro'' @ [CHR 0x22]) = []
   \<and> rule_based_parsing
     \<lparr>finditer_replace = (\<lambda>p s. []),
      finditer_highlight =
        (\<lambda>p s. if p = Highlight \<and> s = CHR 0x22 # ''highlight Intro'' @ [CHR 0x22]
                then [''Intro''] else []),
      finditer_heading = (\<lambda>p s. [])\<rparr>
     (CHR 0x22 # ''highlight Intro'' @ [CHR 0x22])
     = [\<lparr>action = PyStr ''highlight'', target_text = PyStr ''Intro'',
          replacement_text = PyNone, context_str = PyNone\<rparr>]"
  by code_simp

text \<open>
  C6, amended. If \<open>json.loads\<close> raises on the cleaned reply, or gives a value that
  cannot be iterated (\<open>None\<close>, a boolean or a number), the result is that of the
  rule-based parser on the reply itself. If it gives a dictionary or a string, the
  result is the empty list and the rule-based parser is not used.
\<close>

theorem parse_edit_response_fallback:
  "((json_loads (clean_response response) = Inl e
     \<or> (json_loads (clean_response response) = Inr v \<and> py_iter v = Inl e'))
    \<longrightarrow> parse_edit_response json_loads re response = rule_based_parsing re response)
   \<and> ((json_loads (clean_response response) = Inr (PyDict kvs)
        \<or> json_loads (clean_response response) = Inr (PyStr str))
       \<longrightarrow> parse_edit_response json_loads re response = [])"
  by (auto simp: parse_edit_response_def fold_map comp_def fold_keep)

theorem parse_edit_response_fallback_witness:
  "(\<lambda>s. Inl JSONDecodeError :: error + pyobj) (clean_response ''please highlight Intro'')
     = Inl JSONDecodeError
   \<and> parse_edit_response (\<lambda>s. Inl JSONDecodeError)
        \<lparr>finditer_replace = (\<lambda>p s. []),
         finditer_highlight = (\<lambda>p s. if p = Highlight \<and> s = ''please highlight Intro''
                                       then [''Intro''] else []),
         finditer_heading = (\<lambda>p s. [])\<rparr>
        ''please highlight Intro''
     = [\<lparr>action = PyStr ''highlight'', target_text = PyStr ''Intro'',
          replacement_text = PyNone, context_str = PyNone\<rparr>]
   \<and> (\<lambda>s. Inr (PyDict [(''action'', PyStr ''highlight'')]) :: error + pyobj)
        (clean_response ''{}'') = Inr (PyDict [(''action'', PyStr ''highlight'')])
   \<and> parse_edit_response (\<lambda>s. Inr (PyDict [(''action'', PyStr ''highlight'')]))
        \<lparr>finditer_replace = (\<lambda>p s. []),
         finditer_highlight = (\<lambda>p s. if p = Highlight \<and> s = ''please highlight Intro''
                                       then [''Intro''] else []),
         finditer_heading = (\<lambda>p s. [])\<rparr>
        ''{}'' = []"
proof -
  let ?re = "\<lparr>finditer_replace = (\<lambda>p s. []),
         finditer_highlight = (\<lambda>p s. if p = Highlight \<and> s = ''please highlight Intro''
                                       then [''Intro''] else []),
         finditer_heading = (\<lambda>p s. [])\<rparr>"
  have r: "rule_based_parsing ?re ''please highlight Intro''
     = [\<lparr>action = PyStr ''highlight'', target_text = PyStr ''Intro'',
          replacement_text = PyNone, context_str = PyNone\<rparr>]"
    by (simp add: rule_based_parsing_def replace_patterns_def highlight_patterns_def
          heading_patterns_def)
  have a: "parse_edit_response (\<lambda>s. Inl JSONDecodeError) ?re ''please highlight Intro''
           = rule_based_parsing ?re ''please highlight Intro''"
    using parse_edit_response_fallback
      [of "\<lambda>s. Inl JSONDecodeError" "''please highlight Intro''" JSONDecodeError PyNone
          TypeError ?re "[]" "[]"]
    by simp
  have b: "parse_edit_response (\<lambda>s. Inr (PyDict [(''action'', PyStr ''highlight'')])) ?re ''{}'' = []"
    using parse_edit_response_fallback
      [of "\<lambda>s. Inr (PyDict [(''action'', PyStr ''highlight'')])" "''{}''" JSONDecodeError PyNone
          TypeError ?re "[(''action'', PyStr ''highlight'')]" "[]"]
    by simp
  show ?thesis using r a b by simp
qed

section \<open>The AI-text heuristic is a count of indicators\<close>

text \<open>
  C7. A text seems AI-generated exactly when at least two of the eleven indicator
  phrases occur in the lowercased text, or the text has more than ten words and at least
  one indicator phrase occurs in it.
\<close>

theorem seems_ai_generated_iff:
  "seems_ai_generated (Some text) =
     (card {p \<in> set ai_indicators. sublist p (lower text)} \<ge> 2
      \<or> (length (split text) > 10 \<and> card {p \<in> set ai_indicators. sublist p (lower text)} \<ge> 1))"
proof (cases "text = []")
  case True
  have "{p \<in> set ai_indicators. sublist p (lower [])} = {}"
    by (auto simp: ai_indicators_def lower_def)
  then have card0: "card {p \<in> set ai_indicators. sublist p (lower [])} = 0"
    by (simp only: card.empty)
  show ?thesis unfolding True card0 by (simp add: seems_ai_generated_def)
next
  case False
  then show ?thesis unfolding seems_ai_generated_def Let_def ai_score_card by simp
qed

lemma seems_ai_generated_example:
  "seems_ai_generated (Some ''This demonstrates significant impact and high levels of efficiency'')"
  by code_simp

end
